theory Spec2Isabelle
  imports Complex_Main
begin

section \<open>Python values, errors and sequences\<close>

text \<open>
  The charts of \<^verbatim>\<open>equipment/UI_heatExchanger.py\<close> and the element class of
  \<^verbatim>\<open>lib/elemental.py\<close> are embedded as functions that return \<open>error + 'a\<close>:
  \<open>Inl\<close> is the exception the Python would raise. Python floats are modelled by the
  reals, so rounding is not part of the model.
\<close>

datatype error = IndexError | TypeError | ValueError | UnboundLocalError

definition bindE :: "error + 'a \<Rightarrow> ('a \<Rightarrow> error + 'b) \<Rightarrow> error + 'b" where
  "bindE m f = (case m of Inl e \<Rightarrow> Inl e | Inr v \<Rightarrow> f v)"

text \<open>\<^verbatim>\<open>xs[i]\<close> on a Python list or tuple: a negative index counts from the end.\<close>

definition getitem :: "'a list \<Rightarrow> int \<Rightarrow> error + 'a" where
  "getitem xs i =
     (if 0 \<le> i \<and> i < int (length xs) then Inr (xs ! nat i)
      else if i < 0 \<and> - int (length xs) \<le> i then Inr (xs ! nat (int (length xs) + i))
      else Inl IndexError)"

text \<open>
  \<^verbatim>\<open>[f(x) for x in xs]\<close> and the \<^verbatim>\<open>for\<close> loops that append: the first call that
  raises ends the loop with its exception.
\<close>

primrec collect :: "('a \<Rightarrow> error + 'b) \<Rightarrow> 'a list \<Rightarrow> error + 'b list" where
  "collect f [] = Inr []"
| "collect f (x # xs) =
     (case f x of
        Inl e \<Rightarrow> Inl e
      | Inr y \<Rightarrow> (case collect f xs of Inl e \<Rightarrow> Inl e | Inr ys \<Rightarrow> Inr (y # ys)))"

section \<open>The array constructors imported from scipy\<close>

text \<open>
  \<^verbatim>\<open>from scipy import arange, arctan, logspace, pi\<close> re-exports numpy's functions.
  \<^verbatim>\<open>arange(start, stop, step)\<close> has \<open>\<lceil>(stop - start) / step\<rceil>\<close> elements
  \<open>start + i * step\<close>; \<^verbatim>\<open>linspace(start, stop, num)\<close> has \<open>num\<close> evenly spaced
  elements from \<open>start\<close> to \<open>stop\<close> inclusive; \<^verbatim>\<open>logspace\<close> raises 10 to them.
\<close>

definition arange :: "real \<Rightarrow> real \<Rightarrow> real \<Rightarrow> real list" where
  "arange start stop step =
     map (\<lambda>i. start + real i * step) [0..<nat \<lceil>(stop - start) / step\<rceil>]"

definition linspace :: "real \<Rightarrow> real \<Rightarrow> nat \<Rightarrow> real list" where
  "linspace start stop num =
     map (\<lambda>i. start + real i * ((stop - start) / real (num - 1))) [0..<num]"

definition logspace :: "real \<Rightarrow> real \<Rightarrow> nat \<Rightarrow> real list" where
  "logspace start stop num = map (\<lambda>y. 10 powr y) (linspace start stop num)"

section \<open>The chart dialogs\<close>

text \<open>
  A \<^verbatim>\<open>QComboBox\<close> filled once from a tuple: its items and the current index.
  \<^verbatim>\<open>currentText()\<close> is the current item, or the empty string when there is none.
\<close>

record combo =
  items :: "string list"
  currentIndex :: int

definition currentText :: "combo \<Rightarrow> string" where
  "currentText c =
     (if 0 \<le> currentIndex c \<and> currentIndex c < int (length (items c))
      then items c ! nat (currentIndex c) else [])"

type_synonym kwargs = "string \<rightharpoonup> string"

text \<open>
  What a chart hands to matplotlib: the lines and the text labels. The drawing itself
  and the loading of the equation image, which follow the loops, belong to matplotlib
  and are left out.
\<close>

record annotation =
  label_prefix :: string
  label_value :: real
  xy :: "real \<times> real"
  rotation :: real

record diagram =
  mixed_visible :: bool
  lines :: "(real \<times> real) list list"
  labels :: "annotation list"

text \<open>\<^verbatim>\<open>self.diagrama.plot(x, y, "k")\<close>: matplotlib refuses sequences of different length.\<close>

definition plot_xy :: "real list \<Rightarrow> real list \<Rightarrow> error + (real \<times> real) list" where
  "plot_xy xs ys = (if length xs = length ys then Inr (zip xs ys) else Inl ValueError)"

subsection \<open>\<^verbatim>\<open>TemperatureEfectividad\<close>\<close>

definition TemperatureEfectividad_flujo :: "(string \<times> string) list" where
  "TemperatureEfectividad_flujo =
     [(''Counterflow'', ''CF''),
      (''Parallelflow'', ''PF''),
      (''Crossflow, both fluids unmixed'', ''CrFunMix''),
      (''Crossflow, one fluid mixed, other unmixed'', ''CrFSMix''),
      (''Crossflow, both fluids mixed'', ''CrFMix''),
      (''1-2 TEMA E'', ''1-2TEMAE''),
      (''1-2 TEMA E, shell fluid divided'', ''1-2TEMAE2''),
      (''1-3 TEMA E'', ''1-3TEMAE''),
      (''1-4 TEMA E'', ''1-4TEMAE''),
      (''1-1 TEMA G'', ''1-1TEMAG''),
      (''1-2 TEMA G'', ''1-2TEMAG''),
      (''1-1 TEMA H'', ''1-1TEMAH''),
      (''1-2 TEMA H'', ''1-2TEMAH''),
      (''1-1 TEMA J'', ''1-1TEMAJ''),
      (''1-2 TEMA J'', ''1-2TEMAJ''),
      (''1-4 TEMA J'', ''1-4TEMAJ'')]"

definition TemperatureEfectividad_mezclado :: "string list" where
  "TemperatureEfectividad_mezclado = [''1'', ''2'']"

definition TemperatureEfectividad_R :: "real list" where
  "TemperatureEfectividad_R =
     [0.2, 0.3, 0.4, 0.5, 0.6, 0.7, 0.8, 0.9, 1, 1.2, 1.4, 1.6, 1.8, 2, 2.5, 3, 4, 6, 8,
      10, 15]"

definition TemperatureEfectividad_NTU :: "real list" where
  "TemperatureEfectividad_NTU = logspace (-1.5) 1 100"

definition TemperatureEfectividad_kwargs :: "string \<Rightarrow> combo \<Rightarrow> kwargs" where
  "TemperatureEfectividad_kwargs flujo mixed =
     (if flujo = ''CrFSMix'' then [''mixed'' \<mapsto> currentText mixed] else Map.empty)"

text \<open>
  The argument tuples of the calls
  \<^verbatim>\<open>Heat_ExchangerDesign.TemperatureEffectiveness(N, ri, flujo, **kwargs) for N in NTU[1:]\<close>
  of one curve, in order.
\<close>

definition TemperatureEfectividad_args ::
  "string \<Rightarrow> kwargs \<Rightarrow> real \<Rightarrow> (real \<times> real \<times> string \<times> kwargs) list" where
  "TemperatureEfectividad_args flujo kwargs ri =
     map (\<lambda>N. (N, ri, flujo, kwargs)) (drop 1 TemperatureEfectividad_NTU)"

text \<open>
  One pass of \<^verbatim>\<open>for ri in R\<close>: the ordinates, the line and its label.
  \<open>TemperatureEffectiveness\<close> is the function of \<^verbatim>\<open>equipment/heatExchanger.py\<close>,
  a parameter here.
\<close>

definition TemperatureEfectividad_curve ::
  "(real \<Rightarrow> real \<Rightarrow> string \<Rightarrow> kwargs \<Rightarrow> error + real) \<Rightarrow> string \<Rightarrow> kwargs \<Rightarrow> real
     \<Rightarrow> error + ((real \<times> real) list \<times> annotation)" where
  "TemperatureEfectividad_curve TemperatureEffectiveness flujo kwargs ri =
     bindE (collect (\<lambda>(N, r, f, kw). TemperatureEffectiveness N r f kw)
              (TemperatureEfectividad_args flujo kwargs ri)) (\<lambda>es.
     let e = 0 # es in
     bindE (plot_xy TemperatureEfectividad_NTU e) (\<lambda>line.
     bindE (getitem TemperatureEfectividad_NTU (-1)) (\<lambda>x.
     bindE (getitem e (-1)) (\<lambda>y.
     Inr (line, \<lparr>label_prefix = '' R='', label_value = ri, xy = (x, y), rotation = 0\<rparr>)))))"

definition TemperatureEfectividad_plot ::
  "(real \<Rightarrow> real \<Rightarrow> string \<Rightarrow> kwargs \<Rightarrow> error + real) \<Rightarrow> int \<Rightarrow> combo \<Rightarrow> error + diagram" where
  "TemperatureEfectividad_plot TemperatureEffectiveness indice mixed =
     bindE (getitem TemperatureEfectividad_flujo indice) (\<lambda>(text, flujo).
     let kwargs = TemperatureEfectividad_kwargs flujo mixed in
     bindE (collect (TemperatureEfectividad_curve TemperatureEffectiveness flujo kwargs)
              TemperatureEfectividad_R) (\<lambda>series.
     Inr \<lparr>mixed_visible = (flujo = ''CrFSMix''),
          lines = map fst series,
          labels = map snd series\<rparr>))"

subsection \<open>\<^verbatim>\<open>Efectividad\<close>\<close>

definition Efectividad_flujo :: "(string \<times> string) list" where
  "Efectividad_flujo =
     [(''Counterflow'', ''CF''),
      (''Parallelflow'', ''PF''),
      (''Crossflow, both fluids unmixed'', ''CrFunMix''),
      (''Crossflow, one fluid mixed, other unmixed'', ''CrFSMix''),
      (''Crossflow, both fluids mixed'', ''CrFMix''),
      (''1-2 pass shell and tube exchanger'', ''1-2TEMAE'')]"


definition Efectividad_C :: "real list" where
  "Efectividad_C = [0, 0.2, 0.4, 0.6, 0.8, 1]"

definition Efectividad_NTU :: "real list" where
  "Efectividad_NTU = arange 0 6.1 0.1"

definition Efectividad_kw :: "string \<Rightarrow> combo \<Rightarrow> kwargs" where
  "Efectividad_kw flujo mixed =
     (if flujo = ''CrFSMix'' then [''mixed'' \<mapsto> currentText mixed] else Map.empty)"

text \<open>
  The argument tuples of the calls
  \<^verbatim>\<open>Heat_ExchangerDesign.efectividad(N, ci, flujo, **kw)\<close> made by
  \<^verbatim>\<open>for N in NTU[1:]\<close> for one capacity ratio, in order.
\<close>

definition Efectividad_args ::
  "string \<Rightarrow> kwargs \<Rightarrow> real \<Rightarrow> (real \<times> real \<times> string \<times> kwargs) list" where
  "Efectividad_args flujo kw ci = map (\<lambda>N. (N, ci, flujo, kw)) (drop 1 Efectividad_NTU)"

text \<open>
  One pass of \<^verbatim>\<open>for ci in C\<close>. The label is turned by the slope of the curve between
  its 30th and 40th points; the branch for a zero \<open>fraccionx\<close> is the handler of
  \<^verbatim>\<open>ZeroDivisionError\<close>.
\<close>

definition Efectividad_curve ::
  "(real \<Rightarrow> real \<Rightarrow> string \<Rightarrow> kwargs \<Rightarrow> error + real) \<Rightarrow> string \<Rightarrow> kwargs \<Rightarrow> real
     \<Rightarrow> error + ((real \<times> real) list \<times> annotation)" where
  "Efectividad_curve efectividad flujo kw ci =
     bindE (collect (\<lambda>(N, c, f, kw). efectividad N c f kw) (Efectividad_args flujo kw ci)) (\<lambda>es.
     let e = 0 # es in
     bindE (plot_xy Efectividad_NTU e) (\<lambda>line.
     bindE (getitem Efectividad_NTU 40) (\<lambda>n40.
     bindE (getitem Efectividad_NTU 30) (\<lambda>n30.
     let fraccionx = (n40 - n30) / 6 in
     bindE (getitem e 40) (\<lambda>e40.
     bindE (getitem e 30) (\<lambda>e30.
     let fracciony = e40 - e30;
         angle = (if fraccionx = 0 then 90 else arctan (fracciony / fraccionx) * 360 / 2 / pi) in
     bindE (getitem Efectividad_NTU 29) (\<lambda>n29.
     Inr (line, \<lparr>label_prefix = ''C*='', label_value = ci, xy = (n29, e30),
                 rotation = angle\<rparr>))))))))"

definition Efectividad_plot ::
  "(real \<Rightarrow> real \<Rightarrow> string \<Rightarrow> kwargs \<Rightarrow> error + real) \<Rightarrow> int \<Rightarrow> combo \<Rightarrow> error + diagram" where
  "Efectividad_plot efectividad indice mixed =
     bindE (getitem Efectividad_flujo indice) (\<lambda>(text, flujo).
     let kw = Efectividad_kw flujo mixed in
     bindE (collect (Efectividad_curve efectividad flujo kw) Efectividad_C) (\<lambda>series.
     Inr \<lparr>mixed_visible = (flujo = ''CrFSMix''),
          lines = map fst series,
          labels = map snd series\<rparr>))"

subsection \<open>\<^verbatim>\<open>F\<close>\<close>

definition F_flujo :: "(string \<times> string) list" where
  "F_flujo =
     [(''Crossflow, both fluids unmixed'', ''CrFunMix''),
      (''Crossflow, one fluid mixed, other unmixed'', ''CrFSMix''),
      (''Crossflow, both fluids mixed'', ''CrFMix''),
      (''1-2 pass shell and tube exchanger'', ''1-2TEMAE'')]"

definition F_mezclado :: "string list" where
  "F_mezclado = [''Cmin'', ''Cmax'']"

definition F_R :: "real list" where
  "F_R =
     [0.1, 0.2, 0.3, 0.4, 0.5, 0.6, 0.7, 0.8, 0.9, 1, 1.2, 1.4, 1.6, 1.8, 2, 2.5, 3, 4, 6, 8,
      10, 15, 20]"

definition F_P :: "real list" where
  "F_P = arange 0 1.01 0.01"

definition F_kwargs :: "string \<Rightarrow> combo \<Rightarrow> kwargs" where
  "F_kwargs flujo mixed =
     (if flujo = ''CrFSMix'' then [''mixed'' \<mapsto> currentText mixed] else Map.empty)"

text \<open>
  The argument tuples of
  \<^verbatim>\<open>[Heat_ExchangerDesign.CorrectionFactor(p, ri, flujo, **kwargs) for p in P]\<close>.
\<close>

definition F_args :: "string \<Rightarrow> kwargs \<Rightarrow> real \<Rightarrow> (real \<times> real \<times> string \<times> kwargs) list" where
  "F_args flujo kwargs ri = map (\<lambda>p. (p, ri, flujo, kwargs)) F_P"

text \<open>
  \<^verbatim>\<open>F.plot\<close> draws one unlabelled line for each \<open>R\<close> and leaves the visibility of
  the selector as it is, so the diagram is made from the visibility it finds.
\<close>

definition F_plot ::
  "(real \<Rightarrow> real \<Rightarrow> string \<Rightarrow> kwargs \<Rightarrow> error + real) \<Rightarrow> int \<Rightarrow> combo \<Rightarrow> bool \<Rightarrow> error + diagram"
  where
  "F_plot CorrectionFactor indice mixed visible =
     bindE (getitem F_flujo indice) (\<lambda>(text, flujo).
     let kwargs = F_kwargs flujo mixed in
     bindE (collect (\<lambda>ri.
              bindE (collect (\<lambda>(p, r, fl, kw). CorrectionFactor p r fl kw)
                       (F_args flujo kwargs ri)) (\<lambda>f.
              plot_xy F_P f)) F_R) (\<lambda>series.
     Inr \<lparr>mixed_visible = visible, lines = series, labels = []\<rparr>))"

section \<open>The element class of \<^verbatim>\<open>lib/elemental.py\<close>\<close>

text \<open>
  A row of the table \<open>ELEMENTS\<close> as the sqlite3 cursor returns it: a tuple of
  \<^verbatim>\<open>None\<close>, integers, floats and strings.
\<close>

datatype sqlval = Null | Integer int | Real real | Text string

text \<open>
  The module's \<^verbatim>\<open>class float(float): code = ""\<close>: a number with the attribute
  \<open>code\<close>.
\<close>

record pyfloat =
  number :: real
  code :: string

text \<open>
  What the class takes from outside the repository: Python's reading of a string as
  an integer and as a float (\<open>None\<close> where it raises \<^verbatim>\<open>ValueError\<close>) and
  \<^verbatim>\<open>eval\<close> of a string, whose values have the type \<open>'v\<close>.
\<close>

record 'v python =
  int_of_str :: "string \<Rightarrow> int option"
  float_of_str :: "string \<Rightarrow> real option"
  eval_str :: "string \<Rightarrow> error + 'v"

definition py_int :: "'v python \<Rightarrow> sqlval \<Rightarrow> error + int" where
  "py_int py v =
     (case v of
        Null \<Rightarrow> Inl TypeError
      | Integer i \<Rightarrow> Inr i
      | Real r \<Rightarrow> Inr (if 0 \<le> r then \<lfloor>r\<rfloor> else \<lceil>r\<rceil>)
      | Text s \<Rightarrow> (case int_of_str py s of None \<Rightarrow> Inl ValueError | Some i \<Rightarrow> Inr i))"

definition py_float :: "'v python \<Rightarrow> sqlval \<Rightarrow> error + real" where
  "py_float py v =
     (case v of
        Null \<Rightarrow> Inl TypeError
      | Integer i \<Rightarrow> Inr (real_of_int i)
      | Real r \<Rightarrow> Inr r
      | Text s \<Rightarrow> (case float_of_str py s of None \<Rightarrow> Inl ValueError | Some r \<Rightarrow> Inr r))"

definition py_eval :: "'v python \<Rightarrow> sqlval \<Rightarrow> error + 'v" where
  "py_eval py v = (case v of Text s \<Rightarrow> eval_str py s | _ \<Rightarrow> Inl TypeError)"

text \<open>\<^verbatim>\<open>s.split(c)\<close> for a separator of one character.\<close>

fun str_split :: "char \<Rightarrow> string \<Rightarrow> string list" where
  "str_split c [] = [[]]"
| "str_split c (x # xs) =
     (if x = c then [] # str_split c xs
      else (case str_split c xs of [] \<Rightarrow> [[x]] | w # ws \<Rightarrow> (x # w) # ws))"

text \<open>
  \<^verbatim>\<open>Elemental._unit\<close>. When \<^verbatim>\<open>float(str)\<close> raises, an empty value gives
  \<^verbatim>\<open>None\<close>, a string ending in \<open>)\<close> gives the number after its first \<open>(\<close> marked
  \<open>stimated\<close>, and any other string leaves \<open>value\<close> unbound at the \<^verbatim>\<open>return\<close>.
\<close>

definition Elemental_unit :: "'v python \<Rightarrow> sqlval \<Rightarrow> error + pyfloat option" where
  "Elemental_unit py str =
     (case py_float py str of
        Inr value \<Rightarrow> Inr (Some \<lparr>number = value, code = []\<rparr>)
      | Inl _ \<Rightarrow>
          (case str of
             Text s \<Rightarrow>
               (if s = [] then Inr None
                else if last s = CHR '')'' then
                  bindE (getitem (str_split CHR ''('' s) 1) (\<lambda>t.
                  bindE (getitem (str_split CHR '','' t) 0) (\<lambda>u.
                  bindE (py_float py (Text u)) (\<lambda>value.
                  Inr (Some \<lparr>number = value, code = ''stimated''\<rparr>))))
                else Inl UnboundLocalError)
           | _ \<Rightarrow> Inr None))"

text \<open>The phase at 273.15 K from the melting and boiling points.\<close>

definition falsy :: "pyfloat option \<Rightarrow> bool" where
  "falsy v = (case v of None \<Rightarrow> True | Some f \<Rightarrow> number f = 0)"

definition Elemental_phase :: "pyfloat option \<Rightarrow> pyfloat option \<Rightarrow> string" where
  "Elemental_phase Tf Tb =
     (if falsy Tf \<or> falsy Tb then []
      else if number (the Tf) > 273.15 then ''Solid''
      else if number (the Tb) < 273.15 then ''Gas''
      else ''Liquid'')"

text \<open>\<^verbatim>\<open>"%i" % id\<close> for an integer: its decimal digits, with a sign when negative.\<close>

fun digits_of :: "nat \<Rightarrow> string" where
  "digits_of n =
     (if n < 10 then [char_of (48 + n)] else digits_of (n div 10) @ [char_of (48 + n mod 10)])"

definition format_i :: "int \<Rightarrow> string" where
  "format_i i = (if i < 0 then CHR ''-'' # digits_of (nat (- i)) else digits_of (nat i))"

definition Elemental_query :: "int \<Rightarrow> string" where
  "Elemental_query i =
     ''SELECT * FROM ELEMENTS WHERE id=='' @ [CHR 0x27] @ format_i i @ [CHR 0x27]"

record 'v Elemental =
  el_id :: int
  el_name :: sqlval
  el_altname :: sqlval
  el_symbol :: sqlval
  el_serie :: sqlval
  el_group :: int
  el_period :: int
  el_block :: sqlval
  el_density_Solid :: "pyfloat option"
  el_density_Liq :: "pyfloat option"
  el_density_Gas :: "pyfloat option"
  el_appearance :: sqlval
  el_date :: sqlval
  el_country :: sqlval
  el_discover :: sqlval
  el_etymology :: sqlval
  el_atomic_mass :: "pyfloat option"
  el_atomic_volume :: "pyfloat option"
  el_atomic_radius :: "pyfloat option"
  el_covalent_radius :: "pyfloat option"
  el_vanderWaals_radius :: "pyfloat option"
  el_ionic_radii :: sqlval
  el_lattice_type :: sqlval
  el_space_group :: sqlval
  el_lattice_edges :: 'v
  el_lattice_angles :: 'v
  el_electron_configuration :: sqlval
  el_oxidation :: sqlval
  el_electronegativity :: "pyfloat option"
  el_electron_affinity :: "pyfloat option"
  el_first_ionization :: "pyfloat option"
  el_Tf :: "pyfloat option"
  el_Tb :: "pyfloat option"
  el_phase :: string
  el_Heat_f :: "pyfloat option"
  el_Heat_b :: "pyfloat option"
  el_Cp :: "pyfloat option"
  el_k :: "pyfloat option"
  el_T_debye :: "pyfloat option"
  el_color :: sqlval
  el_notes :: sqlval

text \<open>
  \<^verbatim>\<open>Elemental.__init__\<close>. \<open>databank\<close> is the module's cursor: it maps the text of a
  query to the rows that match; \<^verbatim>\<open>fetchone()\<close> is the first of them or
  \<^verbatim>\<open>None\<close>, and subscripting \<^verbatim>\<open>None\<close> raises \<^verbatim>\<open>TypeError\<close>.
\<close>

definition Elemental_init ::
  "'v python \<Rightarrow> (string \<Rightarrow> sqlval list list) \<Rightarrow> int \<Rightarrow> error + 'v Elemental" where
  "Elemental_init py databank id0 =
     (let id1 = (if id0 > 118 then 118 else id0) in
      case databank (Elemental_query id1) of
        [] \<Rightarrow> Inl TypeError
      | data # _ \<Rightarrow>
     bindE (bindE (getitem data 0) (py_int py)) (\<lambda>v_id.
     bindE (getitem data 1) (\<lambda>v_name.
     bindE (getitem data 2) (\<lambda>v_altname.
     bindE (getitem data 3) (\<lambda>v_symbol.
     bindE (getitem data 4) (\<lambda>v_serie.
     bindE (bindE (getitem data 5) (py_int py)) (\<lambda>v_group.
     bindE (bindE (getitem data 6) (py_int py)) (\<lambda>v_period.
     bindE (getitem data 7) (\<lambda>v_block.
     bindE (bindE (getitem data 8) (Elemental_unit py)) (\<lambda>v_density_Solid.
     bindE (bindE (getitem data 9) (Elemental_unit py)) (\<lambda>v_density_Liq.
     bindE (bindE (getitem data 10) (Elemental_unit py)) (\<lambda>v_density_Gas.
     bindE (getitem data 11) (\<lambda>v_appearance.
     bindE (getitem data 12) (\<lambda>v_date.
     bindE (getitem data 13) (\<lambda>v_country.
     bindE (getitem data 14) (\<lambda>v_discover.
     bindE (getitem data 15) (\<lambda>v_etymology.
     bindE (bindE (getitem data 16) (Elemental_unit py)) (\<lambda>v_atomic_mass.
     bindE (bindE (getitem data 17) (Elemental_unit py)) (\<lambda>v_atomic_volume.
     bindE (bindE (getitem data 18) (Elemental_unit py)) (\<lambda>v_atomic_radius.
     bindE (bindE (getitem data 19) (Elemental_unit py)) (\<lambda>v_covalent_radius.
     bindE (bindE (getitem data 20) (Elemental_unit py)) (\<lambda>v_vanderWaals_radius.
     bindE (getitem data 21) (\<lambda>v_ionic_radii.
     bindE (getitem data 22) (\<lambda>v_lattice_type.
     bindE (getitem data 23) (\<lambda>v_space_group.
     bindE (bindE (getitem data 24) (py_eval py)) (\<lambda>v_lattice_edges.
     bindE (bindE (getitem data 25) (py_eval py)) (\<lambda>v_lattice_angles.
     bindE (getitem data 26) (\<lambda>v_electron_configuration.
     bindE (getitem data 27) (\<lambda>v_oxidation.
     bindE (bindE (getitem data 28) (Elemental_unit py)) (\<lambda>v_electronegativity.
     bindE (bindE (getitem data 29) (Elemental_unit py)) (\<lambda>v_electron_affinity.
     bindE (bindE (getitem data 30) (Elemental_unit py)) (\<lambda>v_first_ionization.
     bindE (bindE (getitem data 31) (Elemental_unit py)) (\<lambda>v_Tf.
     bindE (bindE (getitem data 32) (Elemental_unit py)) (\<lambda>v_Tb.
     bindE (bindE (getitem data 33) (Elemental_unit py)) (\<lambda>v_Heat_f.
     bindE (bindE (getitem data 34) (Elemental_unit py)) (\<lambda>v_Heat_b.
     bindE (bindE (getitem data 35) (Elemental_unit py)) (\<lambda>v_Cp.
     bindE (bindE (getitem data 36) (Elemental_unit py)) (\<lambda>v_k.
     bindE (bindE (getitem data 37) (Elemental_unit py)) (\<lambda>v_T_debye.
     bindE (getitem data 38) (\<lambda>v_color.
     bindE (getitem data 39) (\<lambda>v_notes.
     Inr \<lparr>el_id = v_id,
          el_name = v_name,
          el_altname = v_altname,
          el_symbol = v_symbol,
          el_serie = v_serie,
          el_group = v_group,
          el_period = v_period,
          el_block = v_block,
          el_density_Solid = v_density_Solid,
          el_density_Liq = v_density_Liq,
          el_density_Gas = v_density_Gas,
          el_appearance = v_appearance,
          el_date = v_date,
          el_country = v_country,
          el_discover = v_discover,
          el_etymology = v_etymology,
          el_atomic_mass = v_atomic_mass,
          el_atomic_volume = v_atomic_volume,
          el_atomic_radius = v_atomic_radius,
          el_covalent_radius = v_covalent_radius,
          el_vanderWaals_radius = v_vanderWaals_radius,
          el_ionic_radii = v_ionic_radii,
          el_lattice_type = v_lattice_type,
          el_space_group = v_space_group,
          el_lattice_edges = v_lattice_edges,
          el_lattice_angles = v_lattice_angles,
          el_electron_configuration = v_electron_configuration,
          el_oxidation = v_oxidation,
          el_electronegativity = v_electronegativity,
          el_electron_affinity = v_electron_affinity,
          el_first_ionization = v_first_ionization,
          el_Tf = v_Tf,
          el_Tb = v_Tb,
          el_phase = Elemental_phase v_Tf v_Tb,
          el_Heat_f = v_Heat_f,
          el_Heat_b = v_Heat_b,
          el_Cp = v_Cp,
          el_k = v_k,
          el_T_debye = v_T_debye,
          el_color = v_color,
          el_notes = v_notes\<rparr>)))))))))))))))))))))))))))))))))))))))))"

text \<open>
  A table of one row, for element 118, and a Python that reads the string \<open>294\<close> as a
  float: the inputs on which the constructor is run below.
\<close>

definition oganesson :: "sqlval list" where
  "oganesson =
     [Integer 118, Text ''Oganesson'', Text ''Ununoctium'', Text ''Og'', Text ''Noble gas'',
      Integer 18, Integer 7, Text ''P'', Null, Null, Null, Null, Text ''2002'', Text ''Russia'',
      Null, Null, Text ''(294,)'', Null, Null, Null, Null, Null, Null, Null, Text ''[]'',
      Text ''[]'', Null, Null, Null, Null, Null, Null, Null, Null, Null, Null, Null, Null,
      Null, Null]"

definition one_row_databank :: "string \<Rightarrow> sqlval list list" where
  "one_row_databank q = (if q = Elemental_query 118 then [oganesson] else [])"

definition plain_python :: "string python" where
  "plain_python =
     \<lparr>int_of_str = (\<lambda>s. None),
      float_of_str = (\<lambda>s. if s = ''294'' then Some 294 else None),
      eval_str = (\<lambda>s. Inr s)\<rparr>"

section \<open>The effectiveness of counterflow and parallel flow, from the specification\<close>

text \<open>
  Modelled from the spec: \<^verbatim>\<open>Heat_ExchangerDesign.efectividad\<close>, which the charts call,
  is defined in \<^verbatim>\<open>equipment/heatExchanger.py\<close>; that file is not among the sources.
  The specification gives its contract (\<open>NTU \<ge> 0\<close>, \<open>Cr\<close> in \<open>[0, 1]\<close>, sections 3 and
  4.1), prints the closed form of counterflow for \<open>Cr \<noteq> 1\<close> (section 8) and refers
  parallel flow to the standard relation of heat-exchanger theory,
  \<open>(1 - exp (- NTU (1 + Cr))) / (1 + Cr)\<close>. It prints no formula for the other
  arrangements and names no value for counterflow at \<open>Cr = 1\<close>: there, and outside
  the contract, the model has no value.

  The closed form is printed without parentheses around its numerator. Read with
  the numerator \<open>1 - exp (- NTU (1 - Cr))\<close> it is the standard relation, the one
  that is 0 at \<open>NTU = 0\<close>, and that reading is the model;
  \<open>closed_form_as_printed\<close> is the other reading.
\<close>

definition Effectiveness :: "real \<Rightarrow> real \<Rightarrow> string \<Rightarrow> real option" where
  "Effectiveness NTU Cr arrangement =
     (if NTU < 0 \<or> Cr < 0 \<or> 1 < Cr then None
      else if arrangement = ''CF'' \<and> Cr \<noteq> 1 then
        Some ((1 - exp (- NTU * (1 - Cr))) / (1 - Cr * exp (- NTU * (1 - Cr))))
      else if arrangement = ''PF'' then
        Some ((1 - exp (- NTU * (1 + Cr))) / (1 + Cr))
      else None)"

definition closed_form_as_printed :: "real \<Rightarrow> real \<Rightarrow> real" where
  "closed_form_as_printed NTU Cr =
     1 - exp (- NTU * (1 - Cr)) / (1 - Cr * exp (- NTU * (1 - Cr)))"

section \<open>Sequences collected from calls\<close>

lemma collect_length: "collect f xs = Inr ys \<Longrightarrow> length ys = length xs"
  by (induction xs arbitrary: ys) (auto split: sum.splits)

lemma collect_nth:
  "collect f xs = Inr ys \<Longrightarrow> k < length xs \<Longrightarrow> f (xs ! k) = Inr (ys ! k)"
proof (induction xs arbitrary: ys k)
  case Nil
  then show ?case by simp
next
  case (Cons x xs)
  then show ?case by (cases k) (auto split: sum.splits)
qed

lemma collect_total: "(\<And>x. x \<in> set xs \<Longrightarrow> f x = Inr (g x)) \<Longrightarrow> collect f xs = Inr (map g xs)"
  by (induction xs) auto

section \<open>The temperature-effectiveness chart\<close>

lemma TemperatureEfectividad_NTU_length: "length TemperatureEfectividad_NTU = 100"
  by (simp add: TemperatureEfectividad_NTU_def logspace_def linspace_def)

lemma TemperatureEfectividad_NTU_nth:
  "i < 100 \<Longrightarrow> TemperatureEfectividad_NTU ! i = 10 powr (- 1.5 + real i * (2.5 / 99))"
  by (simp add: TemperatureEfectividad_NTU_def logspace_def linspace_def)

lemma TemperatureEfectividad_NTU_first: "TemperatureEfectividad_NTU ! 0 = 10 powr (- 1.5)"
  using TemperatureEfectividad_NTU_nth [of 0] by simp

lemma ten_powr_bounds: "0.0316 < (10::real) powr (- 1.5) \<and> (10::real) powr (- 1.5) < 0.0317"
proof -
  define x :: real where "x = 10 powr (- 1.5)"
  have pos: "0 < x" by (simp add: x_def)
  have "x\<^sup>2 = 10 powr (- 1.5) * 10 powr (- 1.5)" by (simp add: x_def power2_eq_square)
  also have "\<dots> = 10 powr (- 3)" by (simp flip: powr_add)
  also have "\<dots> = 1 / 1000" by (simp add: powr_minus_divide)
  finally have sq: "x\<^sup>2 = 1 / 1000" .
  have "(0.0316::real)\<^sup>2 < 1 / 1000" by (simp add: power2_eq_square)
  then have "(0.0316::real)\<^sup>2 < x\<^sup>2" by (simp only: sq)
  then have lo: "0.0316 < x" using pos by (rule_tac power2_less_imp_less) simp_all
  have "1 / 1000 < (0.0317::real)\<^sup>2" by (simp add: power2_eq_square)
  then have "x\<^sup>2 < (0.0317::real)\<^sup>2" by (simp only: sq)
  then have hi: "x < 0.0317" by (rule_tac power2_less_imp_less) simp_all
  show ?thesis using lo hi by (simp add: x_def)
qed

lemma TemperatureEfectividad_curve_first:
  assumes "TemperatureEfectividad_curve TE flujo kw ri = Inr (line, ann)"
  shows "length line = 100 \<and> line ! 0 = (TemperatureEfectividad_NTU ! 0, 0)"
proof -
  from assms obtain es where
    es: "collect (\<lambda>(N, r, f, kw). TE N r f kw) (TemperatureEfectividad_args flujo kw ri) = Inr es"
    and line: "plot_xy TemperatureEfectividad_NTU (0 # es) = Inr line"
    by (auto simp: TemperatureEfectividad_curve_def bindE_def Let_def split: sum.splits)
  from line have z: "line = zip TemperatureEfectividad_NTU (0 # es)"
    and len: "length TemperatureEfectividad_NTU = length (0 # es)"
    by (auto simp: plot_xy_def split: if_splits)
  from len have "length line = 100" using TemperatureEfectividad_NTU_length by (simp add: z)
  moreover have "line ! 0 = (TemperatureEfectividad_NTU ! 0, 0)"
    using len TemperatureEfectividad_NTU_length by (simp add: z)
  ultimately show ?thesis by simp
qed


lemma TemperatureEfectividad_args_after_first:
  assumes "a \<in> set (TemperatureEfectividad_args flujo kw ri)"
  shows "TemperatureEfectividad_NTU ! 0 < fst a"
proof -
  from assms obtain N where a: "a = (N, ri, flujo, kw)"
    and N: "N \<in> set (drop 1 TemperatureEfectividad_NTU)"
    by (auto simp: TemperatureEfectividad_args_def)
  from N obtain j where j: "j < length (drop 1 TemperatureEfectividad_NTU)"
    and Nj: "N = drop 1 TemperatureEfectividad_NTU ! j"
    by (auto simp: in_set_conv_nth)
  from j have j99: "j < 99" using TemperatureEfectividad_NTU_length by simp
  then have "N = TemperatureEfectividad_NTU ! (Suc j)" using Nj TemperatureEfectividad_NTU_length by simp
  also have "\<dots> = 10 powr (- 1.5 + real (Suc j) * (2.5 / 99))"
    using j99 by (intro TemperatureEfectividad_NTU_nth) simp
  finally have "N = 10 powr (- 1.5 + real (Suc j) * (2.5 / 99))" .
  moreover have "(10::real) powr (- 1.5) < 10 powr (- 1.5 + real (Suc j) * (2.5 / 99))"
    by (rule powr_less_mono) simp_all
  ultimately show ?thesis by (simp add: a TemperatureEfectividad_NTU_first)
qed

lemma TemperatureEfectividad_getitem_flujo:
  assumes "- 16 \<le> indice" and "indice < 16"
  shows "\<exists>t f. getitem TemperatureEfectividad_flujo indice = Inr (t, f)"
proof -
  have "length TemperatureEfectividad_flujo = 16"
    by (simp add: TemperatureEfectividad_flujo_def)
  with assms have "\<exists>p. getitem TemperatureEfectividad_flujo indice = Inr p"
    by (auto simp: getitem_def Let_def)
  then show ?thesis by auto
qed

lemma TemperatureEfectividad_curve_total:
  assumes "\<And>N r f kw. TE N r f kw = Inr (g N r f kw)"
  shows "\<exists>c. TemperatureEfectividad_curve TE flujo kw ri = Inr c"
proof -
  let ?args = "TemperatureEfectividad_args flujo kw ri"
  have c: "collect (\<lambda>(N, r, f, kw). TE N r f kw) ?args = Inr (map (\<lambda>(N, r, f, kw). g N r f kw) ?args)"
    by (rule collect_total) (auto simp: assms)
  have len: "length ?args = 99"
    using TemperatureEfectividad_NTU_length by (simp add: TemperatureEfectividad_args_def)
  show ?thesis
    using TemperatureEfectividad_NTU_length len
    by (simp add: TemperatureEfectividad_curve_def bindE_def c plot_xy_def getitem_def Let_def)
qed

lemma TemperatureEfectividad_plot_total:
  assumes "- 16 \<le> indice" and "indice < 16"
    and "\<And>N r f kw. TE N r f kw = Inr (g N r f kw)"
  shows "\<exists>d. TemperatureEfectividad_plot TE indice mixed = Inr d"
proof -
  from TemperatureEfectividad_getitem_flujo [OF assms(1,2)] obtain t f where
    g: "getitem TemperatureEfectividad_flujo indice = Inr (t, f)" by blast
  let ?kw = "TemperatureEfectividad_kwargs f mixed"
  have "\<forall>ri. \<exists>c. TemperatureEfectividad_curve TE f ?kw ri = Inr c"
    using TemperatureEfectividad_curve_total [of TE g] assms(3) by blast
  then obtain h where h: "\<And>ri. TemperatureEfectividad_curve TE f ?kw ri = Inr (h ri)"
    by metis
  have "collect (TemperatureEfectividad_curve TE f ?kw) TemperatureEfectividad_R
          = Inr (map h TemperatureEfectividad_R)"
    by (rule collect_total) (simp add: h)
  then show ?thesis
    by (simp add: TemperatureEfectividad_plot_def bindE_def g Let_def)
qed

lemma TemperatureEfectividad_plot_lines_length:
  assumes "TemperatureEfectividad_plot TE indice mixed = Inr d"
  shows "length (lines d) = length TemperatureEfectividad_R"
proof -
  from assms obtain f series where
    series: "collect (TemperatureEfectividad_curve TE f (TemperatureEfectividad_kwargs f mixed))
               TemperatureEfectividad_R = Inr series"
    and d: "lines d = map fst series"
    by (auto simp: TemperatureEfectividad_plot_def bindE_def Let_def split: sum.splits)
  from series have "length series = length TemperatureEfectividad_R" by (rule collect_length)
  then show ?thesis by (simp add: d)
qed

text \<open>
  Claim C9. In the temperature-effectiveness chart every plotted curve, for every
  selected arrangement and every \<open>R\<close> of the sweep, starts at the point
  \<open>(NTU[0], 0)\<close> with \<open>NTU[0] = 10 powr (-1.5)\<close>, about 0.0316: the ordinates are the
  literal 0 followed by the values of \<open>TemperatureEffectiveness\<close> on \<open>NTU[1:]\<close>, all of
  which lie strictly after \<open>NTU[0]\<close>, so the first ordinate is 0 whatever the function
  would return at \<open>NTU[0]\<close>.
\<close>

theorem TemperatureEfectividad_plot_first_point:
  assumes "TemperatureEfectividad_plot TE indice mixed = Inr d"
    and "k < length (lines d)"
  shows "length (lines d) = length TemperatureEfectividad_R
     \<and> length (lines d ! k) = length TemperatureEfectividad_NTU
     \<and> lines d ! k ! 0 = (TemperatureEfectividad_NTU ! 0, 0)
     \<and> TemperatureEfectividad_NTU ! 0 = 10 powr (- 1.5)
     \<and> 0.0316 < TemperatureEfectividad_NTU ! 0 \<and> TemperatureEfectividad_NTU ! 0 < 0.0317
     \<and> (\<forall>a \<in> set (TemperatureEfectividad_args flujo kw ri).
           TemperatureEfectividad_NTU ! 0 < fst a)"
proof -
  from assms(1) obtain t f series where
    series: "collect (TemperatureEfectividad_curve TE f (TemperatureEfectividad_kwargs f mixed))
               TemperatureEfectividad_R = Inr series"
    and d: "lines d = map fst series"
    by (auto simp: TemperatureEfectividad_plot_def bindE_def Let_def split: sum.splits)
  have len: "length series = length TemperatureEfectividad_R"
    using series by (rule collect_length)
  from assms(2) have k: "k < length TemperatureEfectividad_R" by (simp add: d len)
  have "TemperatureEfectividad_curve TE f (TemperatureEfectividad_kwargs f mixed)
          (TemperatureEfectividad_R ! k) = Inr (series ! k)"
    using series k by (rule collect_nth)
  then have "TemperatureEfectividad_curve TE f (TemperatureEfectividad_kwargs f mixed)
          (TemperatureEfectividad_R ! k) = Inr (fst (series ! k), snd (series ! k))"
    by simp
  from TemperatureEfectividad_curve_first [OF this]
  have "length (lines d ! k) = 100 \<and> lines d ! k ! 0 = (TemperatureEfectividad_NTU ! 0, 0)"
    using k by (simp add: d len)
  then show ?thesis
    using ten_powr_bounds TemperatureEfectividad_args_after_first by (simp add: d len TemperatureEfectividad_NTU_first TemperatureEfectividad_NTU_length)
qed

theorem TemperatureEfectividad_plot_first_point_witness:
  "\<exists>d. TemperatureEfectividad_plot (\<lambda>N r f kw. Inr 1) 0
          \<lparr>items = TemperatureEfectividad_mezclado, currentIndex = 0\<rparr> = Inr d
      \<and> 0 < length (lines d)
      \<and> lines d ! 0 ! 0 = (10 powr (- 1.5), 0)"
proof -
  let ?mixed = "\<lparr>items = TemperatureEfectividad_mezclado, currentIndex = 0\<rparr>"
  obtain d where d: "TemperatureEfectividad_plot (\<lambda>N r f kw. Inr 1) 0 ?mixed = Inr d"
    using TemperatureEfectividad_plot_total [of 0 "\<lambda>N r f kw. Inr 1" "\<lambda>N r f kw. 1" ?mixed] by auto
  have n: "length (lines d) = length TemperatureEfectividad_R"
    using d by (rule TemperatureEfectividad_plot_lines_length)
  then have k: "0 < length (lines d)" by (simp add: TemperatureEfectividad_R_def)
  from TemperatureEfectividad_plot_first_point [OF d k] have "lines d ! 0 ! 0 = (10 powr (- 1.5), 0)" by simp
  with d k show ?thesis by blast
qed

section \<open>The \<open>mixed\<close> selector of the charts\<close>





section \<open>The element class\<close>

lemma format_i_118: "format_i 118 = ''118''"
  by code_simp

lemma bindE_Inr_iff: "bindE m f = Inr y \<longleftrightarrow> (\<exists>v. m = Inr v \<and> f v = Inr y)"
  by (cases m) (simp_all add: bindE_def)

lemma Elemental_query_118:
  "Elemental_query 118 = ''SELECT * FROM ELEMENTS WHERE id=='' @ [CHR 0x27] @ ''118'' @ [CHR 0x27]"
  by (simp add: Elemental_query_def format_i_118)

lemma unit_estimated:
  "Elemental_unit plain_python (Text ''(294,)'') = Inr (Some \<lparr>number = 294, code = ''stimated''\<rparr>)"
  by (simp add: Elemental_unit_def plain_python_def py_float_def getitem_def bindE_def)

lemma unit_null: "Elemental_unit py Null = Inr None"
  by (simp add: Elemental_unit_def py_float_def)

lemma eval_plain: "py_eval plain_python (Text s) = Inr s"
  by (simp add: py_eval_def plain_python_def)

lemma oganesson_object:
  "map_sum id (\<lambda>el. (el_id el, el_symbol el, el_atomic_mass el, el_phase el))
     (Elemental_init plain_python one_row_databank 118)
   = Inr (118, Text ''Og'', Some \<lparr>number = 294, code = ''stimated''\<rparr>, [])"
  by (simp add: Elemental_init_def one_row_databank_def oganesson_def getitem_def bindE_def
      unit_estimated unit_null py_int_def eval_plain Elemental_phase_def falsy_def)

text \<open>
  Claim C10. For every integer above 118 the constructor gives what it gives for 118,
  the same object or the same exception: the atomic number is replaced by 118 before
  the database is asked. When the rows the database returns for 118 carry 118 in their
  first column, the object's \<open>id\<close> is 118.
\<close>

theorem Elemental_clamps_atomic_number:
  assumes "118 < i"
  shows "Elemental_init py databank i = Elemental_init py databank 118
     \<and> (\<forall>el. Elemental_init py databank i = Inr el \<longrightarrow>
          (\<forall>row \<in> set (databank (Elemental_query 118)).
              bindE (getitem row 0) (py_int py) = Inr 118) \<longrightarrow>
          el_id el = 118)"
proof -
  have eq: "Elemental_init py databank i = Elemental_init py databank 118"
    using assms by (simp add: Elemental_init_def)
  have "el_id el = 118"
    if el: "Elemental_init py databank 118 = Inr el"
      and keyed: "\<forall>row \<in> set (databank (Elemental_query 118)).
              bindE (getitem row 0) (py_int py) = Inr 118" for el
  proof -
    from el obtain data rest where rows: "databank (Elemental_query 118) = data # rest"
      by (auto simp: Elemental_init_def split: list.splits)
    with keyed have k: "bindE (getitem data 0) (py_int py) = Inr 118" by simp
    from el have "bindE (bindE (getitem data 0) (py_int py)) (\<lambda>v. Inr v) = Inr (el_id el)"
      by (auto simp: Elemental_init_def rows bindE_Inr_iff)
    with k show ?thesis by (simp add: bindE_def)
  qed
  with eq show ?thesis by simp
qed


theorem Elemental_clamps_atomic_number_witness:
  "(118::int) < 200
   \<and> Elemental_init plain_python one_row_databank 200
       = Elemental_init plain_python one_row_databank 118
   \<and> map_sum id el_id (Elemental_init plain_python one_row_databank 200) = Inr 118"
proof -
  have lt: "(118::int) < 200" by simp
  note clamp = Elemental_clamps_atomic_number [OF lt, of plain_python one_row_databank]
  have keyed: "\<forall>row \<in> set (one_row_databank (Elemental_query 118)).
      bindE (getitem row 0) (py_int plain_python) = Inr 118"
    by (simp add: one_row_databank_def oganesson_def getitem_def bindE_def py_int_def)
  obtain el where el: "Elemental_init plain_python one_row_databank 118 = Inr el"
    using oganesson_object
    by (cases "Elemental_init plain_python one_row_databank 118") simp_all
  with clamp have el': "Elemental_init plain_python one_row_databank 200 = Inr el" by simp
  with clamp keyed have "el_id el = 118" by blast
  with el' clamp lt show ?thesis by simp
qed

section \<open>Counterflow and parallel flow\<close>

lemma exp_minus_half_bounds:
  "0.60651 < exp (- (1/2) :: real) \<and> exp (- (1/2) :: real) < 0.60656"
proof -
  obtain t :: real where t: "\<bar>t\<bar> \<le> \<bar>- (1/2)\<bar>"
    and e: "exp (- (1/2)) = (\<Sum>m<6. ((- (1/2)) ^ m) / fact m) + (exp t / fact 6) * (- (1/2)) ^ 6"
    using Maclaurin_exp_le [of "- (1/2)" 6] by blast
  have s: "(\<Sum>m<6. ((- (1/2) :: real) ^ m) / fact m) = 2329 / 3840"
    by (simp add: lessThan_nat_numeral fact_numeral power_divide)
  have r: "(exp t / fact 6) * (- (1/2)) ^ 6 = exp t / 46080"
    by (simp add: fact_numeral power_divide)
  have "t \<le> 1/2" using t by simp
  then have "exp t \<le> exp (1/2)" by simp
  also have "exp (1/2 :: real) \<le> 1 + 1/2 + (1/2)\<^sup>2" by (rule exp_bound) simp_all
  finally have up: "exp t \<le> 7/4" by (simp add: power2_eq_square)
  have lo: "0 < exp t" by simp
  have eq: "exp (- (1/2) :: real) = 2329 / 3840 + exp t / 46080" using e s r by simp
  from up have u: "exp t / 46080 \<le> 7 / 184320" by simp
  have l: "0 < exp t / 46080" by simp
  define r where "r = exp t / 46080"
  from u l have "0 < r" and "r \<le> 7 / 184320" by (simp_all add: r_def)
  then have "(60651 / 100000 :: real) < 2329 / 3840 + r \<and> 2329 / 3840 + r < 60656 / 100000"
    by simp
  then show ?thesis by (simp add: eq r_def)
qed


lemma standard_reading_value:
  fixes e :: real
  assumes "0.60651 < e" and "e < 0.60656"
  shows "0.5647 < (1 - e) / (1 - e / 2) \<and> (1 - e) / (1 - e / 2) < 0.5648"
proof -
  have pos: "0 < 1 - e / 2" using assms by simp
  have "0.5647 * (1 - e / 2) < 1 - e" using assms by simp
  then have lo: "0.5647 < (1 - e) / (1 - e / 2)" using pos by (simp add: pos_less_divide_eq)
  have "1 - e < 0.5648 * (1 - e / 2)" using assms by simp
  then have hi: "(1 - e) / (1 - e / 2) < 0.5648" using pos by (simp add: pos_divide_less_eq)
  from lo hi show ?thesis by simp
qed

lemma printed_reading_value:
  fixes e :: real
  assumes "0.60651 < e" and "e < 0.60656"
  shows "1 - e / (1 - e / 2) < 0.13"
proof -
  have pos: "0 < 1 - e / 2" using assms by simp
  have "0.87 * (1 - e / 2) < e" using assms by simp
  then have "0.87 < e / (1 - e / 2)" using pos by (simp add: pos_less_divide_eq)
  then show ?thesis by simp
qed

lemma Effectiveness_CF_at_example:
  "Effectiveness 1 (1/2) ''CF'' = Some ((1 - exp (- (1/2))) / (1 - exp (- (1/2)) / 2))"
  by (simp add: Effectiveness_def)

lemma closed_form_in_unit_interval:
  fixes NTU Cr :: real
  assumes "0 \<le> Cr" and "Cr < 1" and "0 \<le> NTU"
  shows "0 \<le> (1 - exp (- NTU * (1 - Cr))) / (1 - Cr * exp (- NTU * (1 - Cr)))
     \<and> (1 - exp (- NTU * (1 - Cr))) / (1 - Cr * exp (- NTU * (1 - Cr))) < 1"
proof -
  define x where "x = exp (- NTU * (1 - Cr))"
  have x0: "0 < x" by (simp add: x_def)
  have "- NTU * (1 - Cr) \<le> 0" using assms by (simp add: mult_nonneg_nonneg)
  then have x1: "x \<le> 1" unfolding x_def by (simp only: exp_le_one_iff)
  have "Cr * x \<le> Cr * 1" using assms x1 by (intro mult_left_mono) simp_all
  then have den: "0 < 1 - Cr * x" using assms by simp
  have num: "0 \<le> 1 - x" using x1 by simp
  have "Cr * x < 1 * x" using assms x0 by (intro mult_strict_right_mono) simp_all
  then have "1 - x < 1 - Cr * x" by simp
  then have "(1 - x) / (1 - Cr * x) < 1" using den by (simp add: pos_divide_less_eq)
  moreover have "0 \<le> (1 - x) / (1 - Cr * x)" using num den by simp
  ultimately show ?thesis by (simp add: x_def)
qed

text \<open>
  The example of the specification, \<open>NTU = 1\<close> and \<open>Cr = 0.5\<close>. The closed form
  lies within 0.0001 of 0.5647 there; read as it is printed, without parentheses
  around the numerator, it is below 0.13. The value 0.5403 that the specification
  gives for the example is the value of neither reading.
\<close>

lemma closed_form_example_values:
  "Effectiveness 1 (1/2) ''CF'' = Some ((1 - exp (- (1/2))) / (1 - exp (- (1/2)) / 2))
   \<and> \<bar>(1 - exp (- (1/2) :: real)) / (1 - exp (- (1/2)) / 2) - 0.5647\<bar> < 0.0001
   \<and> closed_form_as_printed 1 (1/2) < 0.13"
proof -
  have "0.5647 < (1 - exp (- (1/2) :: real)) / (1 - exp (- (1/2)) / 2)
      \<and> (1 - exp (- (1/2) :: real)) / (1 - exp (- (1/2)) / 2) < 0.5648"
    using exp_minus_half_bounds by (intro standard_reading_value) simp_all
  then have a: "\<bar>(1 - exp (- (1/2) :: real)) / (1 - exp (- (1/2)) / 2) - 0.5647\<bar> < 0.0001"
    by linarith
  have "closed_form_as_printed 1 (1/2)
      = 1 - exp (- (1/2) :: real) / (1 - exp (- (1/2)) / 2)"
    by (simp add: closed_form_as_printed_def)
  also have "\<dots> < 0.13"
    using exp_minus_half_bounds by (intro printed_reading_value) simp_all
  finally have b: "closed_form_as_printed 1 (1/2) < 0.13" .
  from a b show ?thesis by (simp add: Effectiveness_CF_at_example)
qed

text \<open>
  Claim C7. For every \<open>NTU \<ge> 0\<close> the effectiveness of counterflow and of parallel
  flow at \<open>Cr = 0\<close> are equal, and both are \<open>1 - exp (- NTU)\<close>.
\<close>

theorem Effectiveness_CF_PF_zero_ratio:
  assumes "0 \<le> NTU"
  shows "Effectiveness NTU 0 ''CF'' = Effectiveness NTU 0 ''PF''
     \<and> Effectiveness NTU 0 ''CF'' = Some (1 - exp (- NTU))
     \<and> Effectiveness NTU 0 ''PF'' = Some (1 - exp (- NTU))"
  using assms by (simp add: Effectiveness_def)

theorem Effectiveness_CF_PF_zero_ratio_witness:
  "Effectiveness 2 0 ''CF'' = Effectiveness 2 0 ''PF''
   \<and> Effectiveness 2 0 ''CF'' = Some (1 - exp (- 2))
   \<and> Effectiveness 2 0 ''PF'' = Some (1 - exp (- 2))"
  using Effectiveness_CF_PF_zero_ratio [of 2] by simp

section \<open>The effectiveness chart\<close>

text \<open>
  The abscissas of the effectiveness chart start at 0, where the ordinate is the
  literal 0 of \<^verbatim>\<open>e=[0]\<close>: \<open>efectividad\<close> is called at the sixty abscissas
  \<open>0.1, \<dots>, 6.0\<close> only, for each of the six capacity ratios, 1 among them.
\<close>

lemma Efectividad_NTU_length: "length Efectividad_NTU = 61"
proof -
  have "(61 / 10 :: real) / (1 / 10) = 61" by simp
  then have "\<lceil>(6.1 - 0 :: real) / 0.1\<rceil> = 61" by simp
  then show ?thesis by (simp add: Efectividad_NTU_def arange_def)
qed

lemma Efectividad_NTU_nth: "i < 61 \<Longrightarrow> Efectividad_NTU ! i = real i * 0.1"
proof -
  assume i: "i < 61"
  have "length Efectividad_NTU = 61" by (rule Efectividad_NTU_length)
  then have "i < length [0..<nat \<lceil>(6.1 - 0 :: real) / 0.1\<rceil>]"
    using i by (simp add: Efectividad_NTU_def arange_def)
  then show ?thesis by (simp add: Efectividad_NTU_def arange_def)
qed

lemma Efectividad_args_positive_NTU:
  assumes "a \<in> set (Efectividad_args flujo kw ci)"
  shows "0 < fst a"
proof -
  from assms obtain N where a: "a = (N, ci, flujo, kw)"
    and N: "N \<in> set (drop 1 Efectividad_NTU)"
    by (auto simp: Efectividad_args_def)
  from N obtain j where j: "j < length (drop 1 Efectividad_NTU)"
    and Nj: "N = drop 1 Efectividad_NTU ! j"
    by (auto simp: in_set_conv_nth)
  from j have j60: "j < 60" using Efectividad_NTU_length by simp
  then have "N = Efectividad_NTU ! (Suc j)" using Nj Efectividad_NTU_length by simp
  also have "\<dots> = real (Suc j) * 0.1" using j60 by (intro Efectividad_NTU_nth) simp
  finally show ?thesis by (simp add: a)
qed

lemma Efectividad_curve_starts_at_origin:
  assumes "Efectividad_curve efectividad flujo kw ci = Inr (line, ann)"
  shows "length line = 61 \<and> line ! 0 = (0, 0)"
proof -
  from assms obtain es where
    line: "plot_xy Efectividad_NTU (0 # es) = Inr line"
    by (auto simp: Efectividad_curve_def bindE_def Let_def split: sum.splits)
  then have z: "line = zip Efectividad_NTU (0 # es)"
    and len: "length Efectividad_NTU = length (0 # es)"
    by (auto simp: plot_xy_def split: if_splits)
  have n0: "Efectividad_NTU ! 0 = 0" using Efectividad_NTU_nth [of 0] by simp
  from len have "length line = 61" using Efectividad_NTU_length by (simp add: z)
  moreover have "line ! 0 = (Efectividad_NTU ! 0, 0)"
    using len Efectividad_NTU_length by (simp add: z)
  ultimately show ?thesis by (simp add: n0)
qed

lemma Efectividad_plot_starts_at_origin:
  assumes "Efectividad_plot efectividad indice mixed = Inr d" and "j < length (lines d)"
  shows "length (lines d) = 6 \<and> lines d ! j ! 0 = (0, 0)"
proof -
  from assms(1) obtain f series where
    series: "collect (Efectividad_curve efectividad f (Efectividad_kw f mixed)) Efectividad_C
               = Inr series"
    and d: "lines d = map fst series"
    by (auto simp: Efectividad_plot_def bindE_def Let_def split: sum.splits)
  have len: "length series = length Efectividad_C" using series by (rule collect_length)
  from assms(2) have j: "j < length Efectividad_C" by (simp add: d len)
  have "Efectividad_curve efectividad f (Efectividad_kw f mixed) (Efectividad_C ! j)
          = Inr (series ! j)"
    using series j by (rule collect_nth)
  then have "Efectividad_curve efectividad f (Efectividad_kw f mixed) (Efectividad_C ! j)
          = Inr (fst (series ! j), snd (series ! j))"
    by simp
  from Efectividad_curve_starts_at_origin [OF this]
  have "lines d ! j ! 0 = (0, 0)" using j by (simp add: d len)
  moreover have "length (lines d) = 6" by (simp add: d len Efectividad_C_def)
  ultimately show ?thesis by simp
qed

lemma Efectividad_sweep_has_unit_ratio:
  "1 \<in> set Efectividad_C
   \<and> set (Efectividad_args flujo kw 1) = (\<lambda>N. (N, 1, flujo, kw)) ` set (drop 1 Efectividad_NTU)
   \<and> length (Efectividad_args flujo kw 1) = 60"
  using Efectividad_NTU_length by (simp add: Efectividad_C_def Efectividad_args_def)



section \<open>Counterflow and parallel flow at \<open>NTU = 0\<close> and along \<open>NTU\<close>\<close>

text \<open>
  For the two arrangements whose relation the specification gives, the
  effectiveness is 0 at \<open>NTU = 0\<close> and does not decrease as \<open>NTU\<close> grows.
\<close>

lemma Effectiveness_zero_NTU:
  assumes "0 \<le> Cr" and "Cr \<le> 1"
  shows "Effectiveness 0 Cr ''PF'' = Some 0"
    and "Cr \<noteq> 1 \<Longrightarrow> Effectiveness 0 Cr ''CF'' = Some 0"
  using assms by (simp_all add: Effectiveness_def)

lemma closed_form_mono:
  fixes Cr x y :: real
  assumes "0 \<le> Cr" and "Cr < 1" and "0 < x" and "x \<le> y" and "y \<le> 1"
  shows "(1 - y) / (1 - Cr * y) \<le> (1 - x) / (1 - Cr * x)"
proof -
  have "Cr * y \<le> Cr * 1" using assms by (intro mult_left_mono) simp_all
  then have dy: "0 < 1 - Cr * y" using assms by simp
  have "Cr * x \<le> Cr * 1" using assms by (intro mult_left_mono) simp_all
  then have dx: "0 < 1 - Cr * x" using assms by simp
  have "0 \<le> (y - x) * (1 - Cr)" using assms by (intro mult_nonneg_nonneg) simp_all
  then have "(1 - y) * (1 - Cr * x) \<le> (1 - x) * (1 - Cr * y)" by (simp add: algebra_simps)
  then show ?thesis using dx dy by (simp add: frac_le_eq pos_divide_le_eq pos_le_divide_eq field_simps)
qed

lemma Effectiveness_mono_CF_PF:
  assumes "0 \<le> Cr" and "Cr \<le> 1" and "0 \<le> NTU1" and "NTU1 \<le> NTU2"
  shows "the (Effectiveness NTU1 Cr ''PF'') \<le> the (Effectiveness NTU2 Cr ''PF'')"
    and "Cr \<noteq> 1 \<Longrightarrow> the (Effectiveness NTU1 Cr ''CF'') \<le> the (Effectiveness NTU2 Cr ''CF'')"
proof -
  have "NTU1 * (1 + Cr) \<le> NTU2 * (1 + Cr)" using assms by (intro mult_right_mono) simp_all
  then have "exp (- NTU2 * (1 + Cr)) \<le> exp (- NTU1 * (1 + Cr))" by simp
  then have "(1 - exp (- NTU1 * (1 + Cr))) / (1 + Cr) \<le> (1 - exp (- NTU2 * (1 + Cr))) / (1 + Cr)"
    using assms by (intro divide_right_mono) simp_all
  then show "the (Effectiveness NTU1 Cr ''PF'') \<le> the (Effectiveness NTU2 Cr ''PF'')"
    using assms by (simp add: Effectiveness_def)
next
  assume ne: "Cr \<noteq> 1"
  then have lt: "Cr < 1" using assms by simp
  have le: "NTU1 * (1 - Cr) \<le> NTU2 * (1 - Cr)" using assms lt by (intro mult_right_mono) simp_all
  have "0 \<le> NTU1 * (1 - Cr)" using assms lt by (intro mult_nonneg_nonneg) simp_all
  then have y1: "exp (- NTU1 * (1 - Cr)) \<le> 1" by simp
  have xy: "exp (- NTU2 * (1 - Cr)) \<le> exp (- NTU1 * (1 - Cr))" using le by simp
  have "(1 - exp (- NTU1 * (1 - Cr))) / (1 - Cr * exp (- NTU1 * (1 - Cr)))
      \<le> (1 - exp (- NTU2 * (1 - Cr))) / (1 - Cr * exp (- NTU2 * (1 - Cr)))"
    using assms(1) lt _ xy y1 by (rule closed_form_mono) simp
  then show "the (Effectiveness NTU1 Cr ''CF'') \<le> the (Effectiveness NTU2 Cr ''CF'')"
    using assms ne by (simp add: Effectiveness_def)
qed

section \<open>The correction-factor chart\<close>

text \<open>
  The chart asks for the correction factor at the 101 abscissas \<open>0, 0.01, \<dots>, 1\<close>
  for every \<open>R\<close> up to 20, so also where \<open>P * R > 1\<close>, which no exchanger reaches:
  \<open>P * R\<close> is the temperature effectiveness of the other stream.
\<close>

lemma F_P_length: "length F_P = 101"
proof -
  have "(101 / 100 :: real) / (1 / 100) = 101" by simp
  then have "\<lceil>(1.01 - 0 :: real) / 0.01\<rceil> = 101" by simp
  then show ?thesis by (simp add: F_P_def arange_def)
qed

lemma F_P_nth: "i < 101 \<Longrightarrow> F_P ! i = real i * 0.01"
proof -
  assume i: "i < 101"
  have "length F_P = 101" by (rule F_P_length)
  then have "i < length [0..<nat \<lceil>(1.01 - 0 :: real) / 0.01\<rceil>]"
    using i by (simp add: F_P_def arange_def)
  then show ?thesis by (simp add: F_P_def arange_def)
qed

lemma F_args_pass_the_limit:
  "20 \<in> set F_R \<and> (1, 20, flujo, kwargs) \<in> set (F_args flujo kwargs 20)
   \<and> (0, 20, flujo, kwargs) \<in> set (F_args flujo kwargs 20)"
proof -
  have "F_P ! 100 = 1" using F_P_nth [of 100] by simp
  moreover have "100 < length F_P" by (simp add: F_P_length)
  then have "F_P ! 100 \<in> set F_P" by (rule nth_mem)
  ultimately have one: "1 \<in> set F_P" by simp
  have "F_P ! 0 = 0" using F_P_nth [of 0] by simp
  moreover have "0 < length F_P" by (simp add: F_P_length)
  then have "F_P ! 0 \<in> set F_P" by (rule nth_mem)
  ultimately have zero: "0 \<in> set F_P" by simp
  from one zero show ?thesis by (simp add: F_args_def F_R_def image_iff)
qed

end
